theory Spec2Isabelle
  imports Main "HOL-Library.AList"
begin

section \<open>Strings and formatting\<close>

text \<open>
  Go strings are byte sequences; they are modelled as \<^typ>\<open>string\<close> (lists of 8-bit
  characters). The double quote and the backslash are written by their codes.
\<close>

definition dquote :: char where
  "dquote = CHR 0x22"

definition backslash :: char where
  "backslash = CHR 0x5C"

text \<open>\<open>strings.Join(elems, sep)\<close>.\<close>

fun Join :: "string list \<Rightarrow> string \<Rightarrow> string" where
  "Join [] sep = []"
| "Join [x] sep = x"
| "Join (x # y # ys) sep = x @ sep @ Join (y # ys) sep"

text \<open>The decimal digits of a natural number, and \<open>fmt.Sprintf("%d", i)\<close> on an integer.\<close>

definition digit :: "nat \<Rightarrow> char" where
  "digit n = char_of (48 + n)"

function digits :: "nat \<Rightarrow> string" where
  "digits n = (if n < 10 then [digit n] else digits (n div 10) @ [digit (n mod 10)])"
  by pat_completeness auto
termination
  by (relation "measure id") auto

declare digits.simps [simp del]

definition Sprintf_d :: "int \<Rightarrow> string" where
  "Sprintf_d i = (if i < 0 then CHR ''-'' # digits (nat (- i)) else digits (nat i))"

text \<open>
  \<open>strconv.Quote\<close>, which the verb \<open>%q\<close> of \<open>fmt\<close> applies to a string: the text in
  double quotes, with the double quote, the backslash and the control characters written as
  Go escape sequences. The model is Go's function on ASCII strings only. From the byte 0x80
  on Go decodes UTF-8 and consults its table of printable runes: it keeps a printable rune
  as it is and writes a byte that is no UTF-8 as \<open>\xNN\<close> and a rune that is not printable
  as \<open>\uNNNN\<close>; the model has neither the decoder nor the table and keeps such a byte as
  it is. Every statement below that depends on \<open>Quote\<close> applies it to an ASCII text.
\<close>

definition hexdigit :: "nat \<Rightarrow> char" where
  "hexdigit n = (if n < 10 then char_of (48 + n) else char_of (87 + n))"

definition quoteByte :: "char \<Rightarrow> string" where
  "quoteByte c =
     (let n = (of_char c :: nat) in
      if c = dquote then [backslash, dquote]
      else if c = backslash then [backslash, backslash]
      else if n = 7 then [backslash, CHR ''a'']
      else if n = 8 then [backslash, CHR ''b'']
      else if n = 12 then [backslash, CHR ''f'']
      else if n = 10 then [backslash, CHR ''n'']
      else if n = 13 then [backslash, CHR ''r'']
      else if n = 9 then [backslash, CHR ''t'']
      else if n = 11 then [backslash, CHR ''v'']
      else if n < 32 \<or> n = 127 then [backslash, CHR ''x'', hexdigit (n div 16), hexdigit (n mod 16)]
      else [c])"

definition Quote :: "string \<Rightarrow> string" where
  "Quote s = dquote # concat (map quoteByte s) @ [dquote]"

section \<open>Errors\<close>

text \<open>
  A Go \<open>error\<close> value, as far as the dispatcher can observe it. \<open>PlainError msg\<close> is any
  error whose dynamic type lacks the methods of the \<open>ClientError\<close> interface of the
  transport package (\<open>errors.New\<close>, \<open>fmt.Errorf\<close>, \<open>url.EscapeError\<close>, ...): only its
  \<open>Error()\<close> text is ever read. \<open>SdClientError\<close> holds the struct
  \<open>sderrors.ClientError\<close>. \<open>CustomClientError\<close> is any other implementor of the
  interface, given by what its four methods return (\<open>Error\<close>, \<open>Code\<close>, \<open>Body\<close>,
  \<open>LoggedError\<close>). A returned \<open>nil\<close> is \<open>None\<close> of \<open>error option\<close>; the lists of
  causes hold proper errors only (a \<open>nil\<close> cause makes \<open>v.Error()\<close> panic already in
  \<open>MultipleClientErrors\<close>).
\<close>

datatype error =
    PlainError string
  | SdClientError ClientError
  | CustomClientError string int string "error list"
and ClientError =
    ClientError (Status: int) (Details: "string list") (DetailedErrors: "error list")

text \<open>The methods of \<open>sderrors.ClientError\<close>.\<close>

definition ClientError_Error :: "ClientError \<Rightarrow> string" where
  "ClientError_Error c = Join (Details c) '', ''"

definition ClientError_Body :: "ClientError \<Rightarrow> string" where
  "ClientError_Body c = ''{'' @ [dquote] @ ''errors'' @ [dquote] @ '': ['' @ Join (Details c) '','' @ '']}''"

definition ClientError_Code :: "ClientError \<Rightarrow> int" where
  "ClientError_Code c = Status c"

definition ClientError_LoggedError :: "ClientError \<Rightarrow> error list" where
  "ClientError_LoggedError c = DetailedErrors c"

text \<open>\<open>err.Error()\<close> on the interface value.\<close>

fun Error :: "error \<Rightarrow> string" where
  "Error (PlainError msg) = msg"
| "Error (SdClientError c) = ClientError_Error c"
| "Error (CustomClientError msg code body logged) = msg"

text \<open>
  The constructors. Options (\<open>opts\<close>) are functions applied to the built value in order;
  Go passes a pointer, the model passes and returns the value.
\<close>

definition MultipleClientErrors ::
  "error list \<Rightarrow> int \<Rightarrow> (ClientError \<Rightarrow> ClientError) list \<Rightarrow> ClientError" where
  "MultipleClientErrors errs code opts =
     fold (\<lambda>v ce. v ce) opts (ClientError code (map (\<lambda>v. Quote (Error v)) errs) errs)"

definition NewClientError ::
  "error \<Rightarrow> int \<Rightarrow> (ClientError \<Rightarrow> ClientError) list \<Rightarrow> ClientError" where
  "NewClientError err code opts = MultipleClientErrors ([] @ [err]) code opts"

section \<open>Headers\<close>

text \<open>
  \<open>micro.Headers\<close>, \<open>nats.Header\<close> and \<open>microHeaderCarrier\<close> are the same Go map
  \<open>map[string][]string\<close>; \<open>url.Values\<close> is one too. The map is an association list read
  with \<^const>\<open>map_of\<close> and written with \<^const>\<open>AList.update\<close>; the order of the list is
  the order in which a \<open>range\<close> loop visits the keys (unspecified in Go).

  The library's accessors are case-sensitive: \<open>Get\<close> is the first value stored under the
  key and the empty string when there is none, \<open>Values\<close> is the stored list (\<open>nil\<close> when
  the key is missing). A key of a decoded message always has at least one value; the model
  reads a key with no value as a missing one.
\<close>

type_synonym Headers = "(string \<times> string list) list"

definition Header_Get :: "Headers \<Rightarrow> string \<Rightarrow> string" where
  "Header_Get h key = (case map_of h key of None \<Rightarrow> [] | Some [] \<Rightarrow> [] | Some (v # vs) \<Rightarrow> v)"

definition Header_Values :: "Headers \<Rightarrow> string \<Rightarrow> string list" where
  "Header_Values h key = (case map_of h key of None \<Rightarrow> [] | Some vs \<Rightarrow> vs)"

text \<open>The trace carrier adapter \<open>microHeaderCarrier\<close>.\<close>

definition microHeaderCarrier_Get :: "Headers \<Rightarrow> string \<Rightarrow> string" where
  "microHeaderCarrier_Get m key = Header_Get m key"

definition microHeaderCarrier_Set :: "Headers \<Rightarrow> string \<Rightarrow> string \<Rightarrow> Headers" where
  "microHeaderCarrier_Set m key val = AList.update key [val] m"

definition microHeaderCarrier_Keys :: "Headers \<Rightarrow> string list" where
  "microHeaderCarrier_Keys m = fold (\<lambda>(k, v) keys. keys @ [k]) m []"

section \<open>The query string of the bridge\<close>

text \<open>
  \<open>url.ParseQuery\<close> of the Go standard library, with \<open>url.QueryUnescape\<close>: a first pass
  checks every \<open>%\<close> escape and fails at the first malformed one, a second pass decodes.
\<close>

definition ishex :: "char \<Rightarrow> bool" where
  "ishex c =
     (let n = (of_char c :: nat) in
      (48 \<le> n \<and> n \<le> 57) \<or> (97 \<le> n \<and> n \<le> 102) \<or> (65 \<le> n \<and> n \<le> 70))"

definition unhex :: "char \<Rightarrow> nat" where
  "unhex c =
     (let n = (of_char c :: nat) in
      if 48 \<le> n \<and> n \<le> 57 then n - 48
      else if 97 \<le> n \<and> n \<le> 102 then n - 97 + 10
      else if 65 \<le> n \<and> n \<le> 70 then n - 65 + 10
      else 0)"

fun checkEscapes :: "string \<Rightarrow> string option" where
  "checkEscapes [] = None"
| "checkEscapes (c # s) =
     (if c = CHR ''%'' then
        (case s of
           h1 # h2 # rest \<Rightarrow>
             if ishex h1 \<and> ishex h2 then checkEscapes rest else Some (take 3 (c # s))
         | _ \<Rightarrow> Some (take 3 (c # s)))
      else checkEscapes s)"

fun decodeEscapes :: "string \<Rightarrow> string" where
  "decodeEscapes [] = []"
| "decodeEscapes (c # s) =
     (if c = CHR ''%'' then
        (case s of
           h1 # h2 # rest \<Rightarrow> char_of (unhex h1 * 16 + unhex h2) # decodeEscapes rest
         | _ \<Rightarrow> [])
      else if c = CHR ''+'' then CHR '' '' # decodeEscapes s
      else c # decodeEscapes s)"

definition QueryUnescape :: "string \<Rightarrow> error + string" where
  "QueryUnescape s =
     (case checkEscapes s of
        Some bad \<Rightarrow> Inl (PlainError (''invalid URL escape '' @ Quote bad))
      | None \<Rightarrow> Inr (decodeEscapes s))"

text \<open>\<open>strings.Cut(s, sep)\<close> for a one-byte separator: the text before and after its first
  occurrence (all of \<open>s\<close> and the empty string when it does not occur).\<close>

definition Cut :: "string \<Rightarrow> char \<Rightarrow> string \<times> string" where
  "Cut s sep = (takeWhile (\<lambda>c. c \<noteq> sep) s, drop 1 (dropWhile (\<lambda>c. c \<noteq> sep) s))"

type_synonym Values = "(string \<times> string list) list"

text \<open>\<open>m[key] = append(m[key], value)\<close>.\<close>

definition Values_append :: "Values \<Rightarrow> string \<Rightarrow> string \<Rightarrow> Values" where
  "Values_append m key val =
     AList.update key ((case map_of m key of None \<Rightarrow> [] | Some vs \<Rightarrow> vs) @ [val]) m"

text \<open>One round of the loop of \<open>parseQuery\<close>, on the piece \<open>key\<close> cut off at \<open>&\<close>.\<close>

definition parsePair :: "Values \<times> error option \<Rightarrow> string \<Rightarrow> Values \<times> error option" where
  "parsePair st key =
     (let (m, err) = st in
      if CHR '';'' \<in> set key then (m, Some (PlainError ''invalid semicolon separator in query''))
      else if key = [] then (m, err)
      else
        let (k, v) = Cut key (CHR ''='') in
        case QueryUnescape k of
          Inl err1 \<Rightarrow> (m, if err = None then Some err1 else err)
        | Inr k' \<Rightarrow>
            (case QueryUnescape v of
               Inl err1 \<Rightarrow> (m, if err = None then Some err1 else err)
             | Inr v' \<Rightarrow> (Values_append m k' v', err)))"

function parseQuery :: "Values \<times> error option \<Rightarrow> string \<Rightarrow> Values \<times> error option" where
  "parseQuery st [] = st"
| "parseQuery st (c # cs) =
     (let (key, query) = Cut (c # cs) (CHR ''&'') in parseQuery (parsePair st key) query)"
  by pat_completeness auto
termination
proof (relation "measure (\<lambda>(st, q). length q)")
  show "wf (measure (\<lambda>(st, q). length q))"
    by simp
next
  fix st :: "Values \<times> error option" and c :: char and cs x key query
  assume "x = Cut (c # cs) (CHR ''&'')" and "(key, query) = x"
  then have "query = drop 1 (dropWhile (\<lambda>c. c \<noteq> CHR ''&'') (c # cs))"
    by (simp add: Cut_def)
  moreover have "length (dropWhile (\<lambda>c. c \<noteq> CHR ''&'') (c # cs)) \<le> length (c # cs)"
    by (rule length_dropWhile_le)
  ultimately have "length query < length (c # cs)"
    by simp
  then show "((parsePair st key, query), (st, c # cs)) \<in> measure (\<lambda>(st, q). length q)"
    by simp
qed

definition ParseQuery :: "string \<Rightarrow> Values \<times> error option" where
  "ParseQuery query = parseQuery ([], None) query"

section \<open>Requests, loggers and effects\<close>

text \<open>
  \<open>micro.Request\<close> as the dispatcher uses it: the subject, the header map and the payload.
  The header map is shared with the message, so a write to it is seen by whoever reads the
  request afterwards; the model returns the request with the new map.
\<close>

record Request =
  Subject :: string
  Headers :: Headers
  Data :: string

text \<open>
  A \<open>*slog.Logger\<close> is the list of attributes it attaches to every record;
  \<open>l.With(k1, v1, k2, v2, ...)\<close> appends attributes.
\<close>

type_synonym Logger = "(string \<times> string) list"

definition Logger_With :: "Logger \<Rightarrow> (string \<times> string) list \<Rightarrow> Logger" where
  "Logger_With l args = l @ args"

datatype codes = codes_Unset | codes_Error | codes_Ok

text \<open>
  What a dispatch does to the outside, in order: log records, calls of the request's
  \<open>Error\<close> and \<open>Respond\<close> operations (the response written to the transport), the
  operations on the span, and the call of the application handler with the request it is
  given. \<open>ReqError code description data\<close> is the call \<open>r.Error(code, description, data)\<close>.
\<close>

datatype event =
    LogError Logger string
  | LogInfo Logger string
  | ReqError string string string
  | ReqRespond string
  | SpanStart string
  | SpanSetAttributes string string
  | SpanSetStatus codes string
  | SpanRecordError error
  | SpanEnd
  | HandlerCall Request

text \<open>\<open>http.StatusText\<close> of the Go standard library: the empty string for an unknown code.\<close>

definition statusText :: "(int \<times> string) list" where
  "statusText =
   [(100, ''Continue''), (101, ''Switching Protocols''), (102, ''Processing''),
    (103, ''Early Hints''),
    (200, ''OK''), (201, ''Created''), (202, ''Accepted''),
    (203, ''Non-Authoritative Information''), (204, ''No Content''), (205, ''Reset Content''),
    (206, ''Partial Content''), (207, ''Multi-Status''), (208, ''Already Reported''),
    (226, ''IM Used''),
    (300, ''Multiple Choices''), (301, ''Moved Permanently''), (302, ''Found''),
    (303, ''See Other''), (304, ''Not Modified''), (305, ''Use Proxy''),
    (307, ''Temporary Redirect''), (308, ''Permanent Redirect''),
    (400, ''Bad Request''), (401, ''Unauthorized''), (402, ''Payment Required''),
    (403, ''Forbidden''), (404, ''Not Found''), (405, ''Method Not Allowed''),
    (406, ''Not Acceptable''), (407, ''Proxy Authentication Required''),
    (408, ''Request Timeout''), (409, ''Conflict''), (410, ''Gone''),
    (411, ''Length Required''), (412, ''Precondition Failed''),
    (413, ''Request Entity Too Large''), (414, ''Request URI Too Long''),
    (415, ''Unsupported Media Type''), (416, ''Requested Range Not Satisfiable''),
    (417, ''Expectation Failed''), (418, ''I'' @ [CHR 0x27] @ ''m a teapot''),
    (421, ''Misdirected Request''), (422, ''Unprocessable Entity''), (423, ''Locked''),
    (424, ''Failed Dependency''), (425, ''Too Early''), (426, ''Upgrade Required''),
    (428, ''Precondition Required''), (429, ''Too Many Requests''),
    (431, ''Request Header Fields Too Large''), (451, ''Unavailable For Legal Reasons''),
    (500, ''Internal Server Error''), (501, ''Not Implemented''), (502, ''Bad Gateway''),
    (503, ''Service Unavailable''), (504, ''Gateway Timeout''),
    (505, ''HTTP Version Not Supported''), (506, ''Variant Also Negotiates''),
    (507, ''Insufficient Storage''), (508, ''Loop Detected''), (510, ''Not Extended''),
    (511, ''Network Authentication Required'')]"

definition StatusText :: "int \<Rightarrow> string" where
  "StatusText code = (case map_of statusText code of None \<Rightarrow> [] | Some s \<Rightarrow> s)"

text \<open>\<open>time.Duration.Milliseconds\<close> on a duration in nanoseconds: Go's integer division,
  which truncates towards zero.\<close>

definition Milliseconds :: "int \<Rightarrow> int" where
  "Milliseconds d = sgn d * (\<bar>d\<bar> div 1000000)"

section \<open>The header bridge\<close>

definition buildQueryHeaders :: "Request \<Rightarrow> error + Request" where
  "buildQueryHeaders r =
     (let headers = Headers r;
          query = Header_Get headers ''X-NatsBridge-UrlQuery'';
          (parsed, err) = ParseQuery query
      in case err of
           Some e \<Rightarrow> Inl e
         | None \<Rightarrow>
             Inr (r\<lparr>Headers :=
                     fold (\<lambda>(k, v) headers. AList.update (''X-Sencillo-'' @ k) v headers)
                       parsed headers\<rparr>))"

definition GetQueryHeaders :: "Headers \<Rightarrow> string \<Rightarrow> string list" where
  "GetQueryHeaders headers key = (let k = ''X-Sencillo-'' @ key in Header_Values headers k)"

section \<open>The dispatcher\<close>

text \<open>
  The type assertion \<open>err.(ClientError)\<close> against the interface of the transport package:
  for an implementor, what \<open>Code()\<close>, \<open>Body()\<close> and \<open>LoggedError()\<close> return.
\<close>

fun asClientError :: "error \<Rightarrow> (int \<times> string \<times> error list) option" where
  "asClientError (PlainError msg) = None"
| "asClientError (SdClientError c) =
     Some (ClientError_Code c, ClientError_Body c, ClientError_LoggedError c)"
| "asClientError (CustomClientError msg code body logged) = Some (code, body, logged)"

definition internalBody :: string where
  "internalBody =
     ''{'' @ [dquote] @ ''errors'' @ [dquote] @ '': ['' @ [dquote] @ ''internal server error''
       @ [dquote] @ '']}''"

definition handleRequestError :: "Logger \<Rightarrow> error \<Rightarrow> event list" where
  "handleRequestError logger err =
     (case asClientError err of
        Some (code, body, logged) \<Rightarrow>
          map (\<lambda>v. LogError logger (Error v)) logged
            @ [ReqError (Sprintf_d code) (StatusText code) body]
      | None \<Rightarrow>
          [LogError logger (Error err), ReqError ''500'' ''internal server error'' internalBody])"

definition MsgID :: "Request \<Rightarrow> error + string" where
  "MsgID r =
     (let rid = Header_Get (Headers r) ''X-Request-ID'' in
      if rid = [] then Inl (PlainError ''required request ID not found'') else Inr rid)"

definition RequestLogger :: "Logger \<Rightarrow> Request \<Rightarrow> error + Logger" where
  "RequestLogger l r =
     (case MsgID r of Inl err \<Rightarrow> Inl err | Inr rid \<Rightarrow> Inr (Logger_With l [(''request_id'', rid)]))"

text \<open>
  The tracing collaborators. A tracer is its \<open>Start\<close>: from a context and a span name, the
  context that carries the new span (the span's own operations are events). A propagator
  is its \<open>Extract\<close>: from a context and a carrier, read through the carrier's \<open>Get\<close> and
  \<open>Keys\<close>, the context with the remote span.
\<close>

type_synonym 'ctx Tracer = "'ctx \<Rightarrow> string \<Rightarrow> 'ctx"
type_synonym 'ctx Propagator = "'ctx \<Rightarrow> (string \<Rightarrow> string) \<Rightarrow> string list \<Rightarrow> 'ctx"

record ('conn, 'ctx) AppContext =
  AppConn :: 'conn
  AppLogger :: Logger
  AppTracer :: "'ctx Tracer"
  AppPropagator :: "'ctx Propagator"

record ('conn, 'ctx) HandlerContext =
  Logger :: Logger
  Conn :: 'conn
  Tracer :: "'ctx Tracer"
  Propagator :: "'ctx Propagator"

text \<open>An application handler returns what it did (its own events) and its error.\<close>

type_synonym ('conn, 'ctx) AppHandler =
  "'ctx \<Rightarrow> Request \<Rightarrow> ('conn, 'ctx) HandlerContext \<Rightarrow> event list \<times> error option"

text \<open>
  \<open>ErrorHandler\<close> with tracing. \<open>ctx\<close> is the background context of the endpoint;
  \<open>start\<close> is the reading of the clock by \<open>time.Now()\<close> on entry and \<open>finish\<close> the
  reading by \<open>time.Since\<close> in the deferred function, both in nanoseconds. The deferred
  calls run last, the later one first: \<open>span.End()\<close>, then the duration record.
\<close>

definition ErrorHandler ::
  "string \<Rightarrow> ('conn, 'ctx) AppContext \<Rightarrow> ('conn, 'ctx) AppHandler \<Rightarrow> 'ctx \<Rightarrow> int \<Rightarrow> int
     \<Rightarrow> Request \<Rightarrow> event list" where
  "ErrorHandler name a handler ctx start finish r =
     (case MsgID r of
        Inl err \<Rightarrow> handleRequestError (AppLogger a) (SdClientError (NewClientError err 400 []))
      | Inr rid \<Rightarrow>
          let reqLogger = Logger_With (AppLogger a) [(''request_id'', rid), (''path'', Subject r)];
              deferred = [LogInfo reqLogger
                (''duration '' @ Sprintf_d (Milliseconds (finish - start)) @ ''ms'')];
              (r, bridge) = (case buildQueryHeaders r of
                               Inl err \<Rightarrow> (r, handleRequestError reqLogger err)
                             | Inr r' \<Rightarrow> (r', []));
              handlerCtx = \<lparr>Logger = reqLogger, Conn = AppConn a, Tracer = AppTracer a,
                            Propagator = AppPropagator a\<rparr>;
              headers = Headers r;
              newCtx = AppPropagator a ctx (microHeaderCarrier_Get headers)
                         (microHeaderCarrier_Keys headers);
              startCtx = AppTracer a newCtx name;
              span = [SpanStart name, SpanSetAttributes ''X-Request-ID'' rid];
              deferred = SpanEnd # deferred;
              (done, err) = handler startCtx r handlerCtx
          in bridge @ span @ [HandlerCall r] @ done @
             (case err of
                None \<Rightarrow> [SpanSetStatus codes_Ok ''success'']
              | Some e \<Rightarrow>
                  [SpanSetStatus codes_Error (Error e), SpanRecordError e]
                    @ handleRequestError reqLogger e)
             @ deferred)"

text \<open>
  The variant without tracing (the other file of the package): its contexts have no tracer
  and no propagator, its handler takes no context. \<open>buildQueryHeaders\<close>,
  \<open>GetQueryHeaders\<close>, \<open>handleRequestError\<close> and \<open>MsgID\<close> are the same text in both files.
\<close>

record 'conn AppContext0 =
  AppConn0 :: 'conn
  AppLogger0 :: Logger

record 'conn HandlerContext0 =
  Logger0 :: Logger
  Conn0 :: 'conn

type_synonym 'conn AppHandler0 =
  "Request \<Rightarrow> 'conn HandlerContext0 \<Rightarrow> event list \<times> error option"

definition ErrorHandler0 ::
  "'conn AppContext0 \<Rightarrow> 'conn AppHandler0 \<Rightarrow> int \<Rightarrow> int \<Rightarrow> Request \<Rightarrow> event list" where
  "ErrorHandler0 a handler start finish r =
     (case MsgID r of
        Inl err \<Rightarrow> handleRequestError (AppLogger0 a) (SdClientError (NewClientError err 400 []))
      | Inr rid \<Rightarrow>
          let reqLogger = Logger_With (AppLogger0 a) [(''request_id'', rid), (''path'', Subject r)];
              deferred = [LogInfo reqLogger
                (''duration '' @ Sprintf_d (Milliseconds (finish - start)) @ ''ms'')];
              (r, bridge) = (case buildQueryHeaders r of
                               Inl err \<Rightarrow> (r, handleRequestError reqLogger err)
                             | Inr r' \<Rightarrow> (r', []));
              ctx = \<lparr>Logger0 = reqLogger, Conn0 = AppConn0 a\<rparr>;
              (done, err) = handler r ctx
          in bridge @ [HandlerCall r] @ done @
             (case err of
                None \<Rightarrow> []
              | Some e \<Rightarrow> handleRequestError reqLogger e)
             @ deferred)"

section \<open>What the handler is given\<close>

text \<open>
  Names for the pieces of a dispatch, used to state its properties: the request-scoped
  logger, the request as the handler sees it (after the bridge step), what the bridge
  step reports, and the result of the one call of the handler that a dispatch makes.
\<close>

definition requestLogger :: "Logger \<Rightarrow> string \<Rightarrow> Request \<Rightarrow> Logger" where
  "requestLogger l rid r = Logger_With l [(''request_id'', rid), (''path'', Subject r)]"

definition bridged :: "Request \<Rightarrow> Request" where
  "bridged r = (case buildQueryHeaders r of Inl err \<Rightarrow> r | Inr r' \<Rightarrow> r')"

definition bridgeReport :: "Logger \<Rightarrow> Request \<Rightarrow> event list" where
  "bridgeReport l r =
     (case buildQueryHeaders r of Inl err \<Rightarrow> handleRequestError l err | Inr r' \<Rightarrow> [])"

definition handlerResult ::
  "string \<Rightarrow> ('conn, 'ctx) AppContext \<Rightarrow> ('conn, 'ctx) AppHandler \<Rightarrow> 'ctx \<Rightarrow> string
     \<Rightarrow> Request \<Rightarrow> event list \<times> error option" where
  "handlerResult name a handler ctx rid r =
     handler
       (AppTracer a
          (AppPropagator a ctx (microHeaderCarrier_Get (Headers (bridged r)))
             (microHeaderCarrier_Keys (Headers (bridged r))))
          name)
       (bridged r)
       \<lparr>Logger = requestLogger (AppLogger a) rid r, Conn = AppConn a, Tracer = AppTracer a,
        Propagator = AppPropagator a\<rparr>"

definition handlerResult0 ::
  "'conn AppContext0 \<Rightarrow> 'conn AppHandler0 \<Rightarrow> string \<Rightarrow> Request
     \<Rightarrow> event list \<times> error option" where
  "handlerResult0 a handler rid r =
     handler (bridged r) \<lparr>Logger0 = requestLogger (AppLogger0 a) rid r, Conn0 = AppConn0 a\<rparr>"

definition durationRecord :: "Logger \<Rightarrow> int \<Rightarrow> int \<Rightarrow> event" where
  "durationRecord l start finish =
     LogInfo l (''duration '' @ Sprintf_d (Milliseconds (finish - start)) @ ''ms'')"

text \<open>The events of the span, which only the tracing variant produces.\<close>

fun isSpanEvent :: "event \<Rightarrow> bool" where
  "isSpanEvent (SpanStart name) = True"
| "isSpanEvent (SpanSetAttributes k v) = True"
| "isSpanEvent (SpanSetStatus c d) = True"
| "isSpanEvent (SpanRecordError e) = True"
| "isSpanEvent SpanEnd = True"
| "isSpanEvent e = False"

text \<open>The handler context of the tracing variant, without its tracing fields.\<close>

definition untraced :: "('conn, 'ctx) HandlerContext \<Rightarrow> 'conn HandlerContext0" where
  "untraced h = \<lparr>Logger0 = Logger h, Conn0 = Conn h\<rparr>"

definition untracedApp :: "('conn, 'ctx) AppContext \<Rightarrow> 'conn AppContext0" where
  "untracedApp a = \<lparr>AppConn0 = AppConn a, AppLogger0 = AppLogger a\<rparr>"

section \<open>Example inputs\<close>

definition exampleApp :: "(unit, unit) AppContext" where
  "exampleApp = \<lparr>AppConn = (), AppLogger = [(''service'', ''calc'')], AppTracer = (\<lambda>c n. c),
                  AppPropagator = (\<lambda>c g ks. c)\<rparr>"

definition exampleApp0 :: "unit AppContext0" where
  "exampleApp0 = \<lparr>AppConn0 = (), AppLogger0 = [(''service'', ''calc'')]\<rparr>"

definition noHeaders :: Request where
  "noHeaders = \<lparr>Subject = ''calc.add'', Headers = [], Data = ''1 2''\<rparr>"

definition plainRequest :: Request where
  "plainRequest = \<lparr>Subject = ''calc.add'', Headers = [(''X-Request-ID'', [''abc''])], Data = ''1 2''\<rparr>"

definition queryRequest :: Request where
  "queryRequest =
     \<lparr>Subject = ''calc.add'',
      Headers = [(''X-Request-ID'', [''abc'']), (''X-NatsBridge-UrlQuery'', [''a=1&a=2&b=3''])],
      Data = ''1 2''\<rparr>"

definition badQueryRequest :: Request where
  "badQueryRequest =
     \<lparr>Subject = ''calc.add'',
      Headers = [(''X-Request-ID'', [''abc'']), (''X-NatsBridge-UrlQuery'', [''a=%zz''])],
      Data = ''1 2''\<rparr>"

section \<open>Evaluation lemmas\<close>

lemma Sprintf_d_400: "Sprintf_d 400 = ''400''"
  by code_simp

lemma Sprintf_d_404: "Sprintf_d 404 = ''404''"
  by code_simp

lemma StatusText_400: "StatusText 400 = ''Bad Request''"
  by (simp add: StatusText_def statusText_def)

lemma StatusText_404: "StatusText 404 = ''Not Found''"
  by (simp add: StatusText_def statusText_def)

lemma quoteByte_plain:
  "32 \<le> (of_char c :: nat) \<Longrightarrow> (of_char c :: nat) \<noteq> 127 \<Longrightarrow> c \<noteq> dquote \<Longrightarrow> c \<noteq> backslash
     \<Longrightarrow> quoteByte c = [c]"
  by (auto simp: quoteByte_def Let_def)

lemma Quote_required:
  "Quote ''required request ID not found'' = dquote # ''required request ID not found'' @ [dquote]"
  by (simp add: Quote_def quoteByte_def dquote_def backslash_def)

lemma Quote_not_found: "Quote ''not found'' = dquote # ''not found'' @ [dquote]"
  by (simp add: Quote_def quoteByte_def dquote_def backslash_def)

lemma handleRequestError_plain:
  "handleRequestError logger (PlainError msg) =
     [LogError logger msg, ReqError ''500'' ''internal server error'' internalBody]"
  by (simp add: handleRequestError_def)

lemma handleRequestError_client:
  "handleRequestError logger (SdClientError c) =
     map (\<lambda>v. LogError logger (Error v)) (DetailedErrors c)
       @ [ReqError (Sprintf_d (Status c)) (StatusText (Status c)) (ClientError_Body c)]"
  by (simp add: handleRequestError_def ClientError_Code_def ClientError_LoggedError_def)

lemma NewClientError_plain:
  "NewClientError err code [] = ClientError code [Quote (Error err)] [err]"
  by (simp add: NewClientError_def MultipleClientErrors_def)

lemma MsgID_missing:
  "Header_Get (Headers r) ''X-Request-ID'' = [] \<Longrightarrow>
     MsgID r = Inl (PlainError ''required request ID not found'')"
  by (simp add: MsgID_def)

lemma reject_events:
  "handleRequestError logger
      (SdClientError (NewClientError (PlainError ''required request ID not found'') 400 [])) =
   [LogError logger ''required request ID not found'',
    ReqError ''400'' ''Bad Request''
      (''{'' @ [dquote] @ ''errors'' @ [dquote] @ '': ['' @ [dquote]
         @ ''required request ID not found'' @ [dquote] @ '']}'')]"
  by (simp add: handleRequestError_client NewClientError_plain Sprintf_d_400 StatusText_400
      ClientError_Body_def Quote_required)

section \<open>The shape of a dispatch\<close>

lemma ErrorHandler_rejected:
  "MsgID r = Inl err \<Longrightarrow>
     ErrorHandler name a handler ctx start finish r =
       handleRequestError (AppLogger a) (SdClientError (NewClientError err 400 []))"
  by (simp add: ErrorHandler_def)

lemma ErrorHandler0_rejected:
  "MsgID r = Inl err \<Longrightarrow>
     ErrorHandler0 a handler start finish r =
       handleRequestError (AppLogger0 a) (SdClientError (NewClientError err 400 []))"
  by (simp add: ErrorHandler0_def)

lemma ErrorHandler_accepted:
  "MsgID r = Inr rid \<Longrightarrow>
     ErrorHandler name a handler ctx start finish r =
       bridgeReport (requestLogger (AppLogger a) rid r) r
         @ [SpanStart name, SpanSetAttributes ''X-Request-ID'' rid, HandlerCall (bridged r)]
         @ fst (handlerResult name a handler ctx rid r)
         @ (case snd (handlerResult name a handler ctx rid r) of
              None \<Rightarrow> [SpanSetStatus codes_Ok ''success'']
            | Some e \<Rightarrow>
                [SpanSetStatus codes_Error (Error e), SpanRecordError e]
                  @ handleRequestError (requestLogger (AppLogger a) rid r) e)
         @ [SpanEnd, durationRecord (requestLogger (AppLogger a) rid r) start finish]"
  by (cases "buildQueryHeaders r")
     (simp_all add: ErrorHandler_def Let_def bridgeReport_def bridged_def handlerResult_def
        requestLogger_def durationRecord_def split: prod.splits option.splits)

lemma ErrorHandler0_accepted:
  "MsgID r = Inr rid \<Longrightarrow>
     ErrorHandler0 a handler start finish r =
       bridgeReport (requestLogger (AppLogger0 a) rid r) r
         @ [HandlerCall (bridged r)]
         @ fst (handlerResult0 a handler rid r)
         @ (case snd (handlerResult0 a handler rid r) of
              None \<Rightarrow> []
            | Some e \<Rightarrow> handleRequestError (requestLogger (AppLogger0 a) rid r) e)
         @ [durationRecord (requestLogger (AppLogger0 a) rid r) start finish]"
  by (cases "buildQueryHeaders r")
     (simp_all add: ErrorHandler0_def Let_def bridgeReport_def bridged_def handlerResult0_def
        requestLogger_def durationRecord_def split: prod.splits option.splits)

lemma ParseQuery_empty: "ParseQuery [] = ([], None)"
  by (simp add: ParseQuery_def)

lemma buildQueryHeaders_absent:
  "Header_Get (Headers r) ''X-NatsBridge-UrlQuery'' = [] \<Longrightarrow> buildQueryHeaders r = Inr r"
  by (simp add: buildQueryHeaders_def ParseQuery_empty)

lemma MsgID_plainRequest: "MsgID plainRequest = Inr ''abc''"
  by (simp add: MsgID_def plainRequest_def Header_Get_def)

lemma bridged_plainRequest: "bridged plainRequest = plainRequest"
  by (simp add: bridged_def buildQueryHeaders_absent plainRequest_def Header_Get_def)

lemma bridgeReport_plainRequest: "bridgeReport l plainRequest = []"
  by (simp add: bridgeReport_def buildQueryHeaders_absent plainRequest_def Header_Get_def)

section \<open>The correlation ID\<close>

text \<open>
  C1. When the lookup of \<open>X-Request-ID\<close> yields the empty string (the header is absent or
  its value is empty), both variants of \<open>ErrorHandler\<close> do exactly two things: they log
  the cause on the application logger and write the error response with code 400, and they
  return. The handler is not called and no span is started. Put the other way round, a
  dispatch that calls the handler has a non-empty correlation ID.
\<close>

theorem missing_request_id_rejected:
  "(Header_Get (Headers r) ''X-Request-ID'' = [] \<longrightarrow>
      ErrorHandler name a handler ctx start finish r =
        [LogError (AppLogger a) ''required request ID not found'',
         ReqError ''400'' ''Bad Request''
           (''{'' @ [dquote] @ ''errors'' @ [dquote] @ '': ['' @ [dquote]
              @ ''required request ID not found'' @ [dquote] @ '']}'')]
      \<and> ErrorHandler0 a0 handler0 start finish r =
        [LogError (AppLogger0 a0) ''required request ID not found'',
         ReqError ''400'' ''Bad Request''
           (''{'' @ [dquote] @ ''errors'' @ [dquote] @ '': ['' @ [dquote]
              @ ''required request ID not found'' @ [dquote] @ '']}'')])
   \<and> ((\<exists>r'. HandlerCall r' \<in> set (ErrorHandler name a handler ctx start finish r)) \<longrightarrow>
        Header_Get (Headers r) ''X-Request-ID'' \<noteq> [])
   \<and> ((\<exists>r'. HandlerCall r' \<in> set (ErrorHandler0 a0 handler0 start finish r)) \<longrightarrow>
        Header_Get (Headers r) ''X-Request-ID'' \<noteq> [])"
proof -
  have rejected: "ErrorHandler name a handler ctx start finish r =
        [LogError (AppLogger a) ''required request ID not found'',
         ReqError ''400'' ''Bad Request''
           (''{'' @ [dquote] @ ''errors'' @ [dquote] @ '': ['' @ [dquote]
              @ ''required request ID not found'' @ [dquote] @ '']}'')]
      \<and> ErrorHandler0 a0 handler0 start finish r =
        [LogError (AppLogger0 a0) ''required request ID not found'',
         ReqError ''400'' ''Bad Request''
           (''{'' @ [dquote] @ ''errors'' @ [dquote] @ '': ['' @ [dquote]
              @ ''required request ID not found'' @ [dquote] @ '']}'')]"
    if "Header_Get (Headers r) ''X-Request-ID'' = []"
    using MsgID_missing [OF that]
    by (simp only: ErrorHandler_rejected ErrorHandler0_rejected reject_events simp_thms)
  show ?thesis
  proof (cases "Header_Get (Headers r) ''X-Request-ID'' = []")
    case True
    from rejected [OF True] show ?thesis
      by simp
  next
    case False
    then show ?thesis
      by simp
  qed
qed



theorem missing_request_id_rejected_witness:
  "Header_Get (Headers noHeaders) ''X-Request-ID'' = []
   \<and> ErrorHandler ''add'' exampleApp (\<lambda>c r h. ([ReqRespond ''3''], None)) () 0 0 noHeaders =
        [LogError (AppLogger exampleApp) ''required request ID not found'',
         ReqError ''400'' ''Bad Request''
           (''{'' @ [dquote] @ ''errors'' @ [dquote] @ '': ['' @ [dquote]
              @ ''required request ID not found'' @ [dquote] @ '']}'')]
   \<and> HandlerCall plainRequest
        \<in> set (ErrorHandler ''add'' exampleApp (\<lambda>c r h. ([ReqRespond ''3''], None)) () 0 0 plainRequest)
   \<and> HandlerCall plainRequest
        \<in> set (ErrorHandler0 exampleApp0 (\<lambda>r h. ([ReqRespond ''3''], None)) 0 0 plainRequest)
   \<and> Header_Get (Headers plainRequest) ''X-Request-ID'' \<noteq> []"
proof -
  have 1: "Header_Get (Headers noHeaders) ''X-Request-ID'' = []"
    by (simp add: noHeaders_def Header_Get_def)
  have 2: "HandlerCall plainRequest
        \<in> set (ErrorHandler ''add'' exampleApp (\<lambda>c r h. ([ReqRespond ''3''], None)) () 0 0 plainRequest)"
    by (simp add: ErrorHandler_accepted [OF MsgID_plainRequest] bridged_plainRequest)
  have 3: "HandlerCall plainRequest
        \<in> set (ErrorHandler0 exampleApp0 (\<lambda>r h. ([ReqRespond ''3''], None)) 0 0 plainRequest)"
    by (simp add: ErrorHandler0_accepted [OF MsgID_plainRequest] bridged_plainRequest)
  note a = missing_request_id_rejected [of noHeaders "''add''" exampleApp
      "\<lambda>c r h. ([ReqRespond ''3''], None)" "()" 0 0 exampleApp0 "\<lambda>r h. ([ReqRespond ''3''], None)"]
  note b = missing_request_id_rejected [of plainRequest "''add''" exampleApp
      "\<lambda>c r h. ([ReqRespond ''3''], None)" "()" 0 0 exampleApp0 "\<lambda>r h. ([ReqRespond ''3''], None)"]
  from a 1 have 4: "ErrorHandler ''add'' exampleApp (\<lambda>c r h. ([ReqRespond ''3''], None)) () 0 0 noHeaders =
        [LogError (AppLogger exampleApp) ''required request ID not found'',
         ReqError ''400'' ''Bad Request''
           (''{'' @ [dquote] @ ''errors'' @ [dquote] @ '': ['' @ [dquote]
              @ ''required request ID not found'' @ [dquote] @ '']}'')]"
    by blast
  from b 2 have 5: "Header_Get (Headers plainRequest) ''X-Request-ID'' \<noteq> []"
    by blast
  from 1 2 3 4 5 show ?thesis
    by blast
qed

section \<open>The carrier adapter, the two variants, a missing bridge header\<close>

lemma microHeaderCarrier_Keys_fold:
  "fold (\<lambda>(k, v) keys. keys @ [k]) m acc = acc @ map fst m"
  by (induction m arbitrary: acc) (auto split: prod.splits)

lemma microHeaderCarrier_Keys_fst: "microHeaderCarrier_Keys m = map fst m"
  by (simp add: microHeaderCarrier_Keys_def microHeaderCarrier_Keys_fold)

lemma set_Keys_dom: "set (microHeaderCarrier_Keys m) = dom (map_of m)"
  by (simp add: microHeaderCarrier_Keys_fst dom_map_of_conv_image_fst)

lemma map_of_Set: "map_of (microHeaderCarrier_Set m key val) = (map_of m)(key \<mapsto> [val])"
  by (simp add: microHeaderCarrier_Set_def update_conv')

text \<open>
  C8. \<open>Set\<close> of the trace carrier adapter stores under the key the one-element list
  of the new value, whatever was stored before, and leaves every other key alone; \<open>Get\<close>
  and \<open>Values\<close> read the new value back at once. \<open>Keys\<close> lists the keys of the
  header map it is applied to, also right after a \<open>Set\<close>: every operation works on the
  map itself.
\<close>

theorem carrier_set_overwrites:
  "map_of (microHeaderCarrier_Set m key val) = (map_of m)(key \<mapsto> [val])
   \<and> microHeaderCarrier_Get (microHeaderCarrier_Set m key val) key = val
   \<and> Header_Values (microHeaderCarrier_Set m key val) key = [val]
   \<and> microHeaderCarrier_Keys m = map fst m
   \<and> set (microHeaderCarrier_Keys m) = dom (map_of m)
   \<and> set (microHeaderCarrier_Keys (microHeaderCarrier_Set m key val)) = insert key (dom (map_of m))"
proof -
  have "microHeaderCarrier_Get (microHeaderCarrier_Set m key val) key = val"
    by (simp add: microHeaderCarrier_Get_def Header_Get_def map_of_Set)
  moreover have "Header_Values (microHeaderCarrier_Set m key val) key = [val]"
    by (simp add: Header_Values_def map_of_Set)
  moreover have "set (microHeaderCarrier_Keys (microHeaderCarrier_Set m key val)) =
      insert key (dom (map_of m))"
    by (simp only: set_Keys_dom map_of_Set dom_fun_upd option.simps if_False)
  ultimately show ?thesis
    using map_of_Set [of m key val] microHeaderCarrier_Keys_fst [of m] set_Keys_dom [of m]
    by blast
qed

lemma handlerResult_untraced:
  "handlerResult name a (\<lambda>c r h. handler r (untraced h)) ctx rid r =
     handlerResult0 (untracedApp a) handler rid r"
  by (simp add: handlerResult_def handlerResult0_def untraced_def untracedApp_def)

lemma AppLogger0_untracedApp: "AppLogger0 (untracedApp a) = AppLogger a"
  by (simp add: untracedApp_def)

text \<open>
  C9. The dispatcher with tracing, run on a handler that uses neither the context nor the
  tracing fields of its handler context, and the dispatcher without tracing, run on that
  handler, do the same things in the same order once the operations on the span are left
  out: the check of the correlation ID and the 400 response, the request-scoped logger,
  the bridge step and the report of its failure, the call of the handler on the same
  request, the response for the handler's error and the duration record.
\<close>

theorem variants_agree:
  "filter (\<lambda>e. \<not> isSpanEvent e)
     (ErrorHandler name a (\<lambda>c r h. handler r (untraced h)) ctx start finish r) =
   filter (\<lambda>e. \<not> isSpanEvent e) (ErrorHandler0 (untracedApp a) handler start finish r)"
proof (cases "MsgID r")
  case (Inl err)
  then show ?thesis
    by (simp add: ErrorHandler_rejected ErrorHandler0_rejected AppLogger0_untracedApp)
next
  case (Inr rid)
  show ?thesis
  proof (cases "snd (handlerResult0 (untracedApp a) handler rid r)")
    case None
    then show ?thesis
      by (simp add: ErrorHandler_accepted [OF Inr] ErrorHandler0_accepted [OF Inr]
          handlerResult_untraced AppLogger0_untracedApp durationRecord_def)
  next
    case (Some e)
    then show ?thesis
      by (simp add: ErrorHandler_accepted [OF Inr] ErrorHandler0_accepted [OF Inr]
          handlerResult_untraced AppLogger0_untracedApp durationRecord_def)
  qed
qed

text \<open>
  C10. When the lookup of \<open>X-NatsBridge-UrlQuery\<close> yields the empty string,
  \<open>buildQueryHeaders\<close> returns no error and the request as it was, and the bridge step
  reports nothing: a dispatch with a correlation ID goes straight to the span and the
  handler (the tracing variant) or to the handler (the other variant).
\<close>

theorem missing_bridge_header_noop:
  "(Header_Get (Headers r) ''X-NatsBridge-UrlQuery'' = [] \<longrightarrow>
      buildQueryHeaders r = Inr r \<and> bridgeReport l r = [])
   \<and> (Header_Get (Headers r) ''X-NatsBridge-UrlQuery'' = [] \<and> MsgID r = Inr rid \<longrightarrow>
        (\<exists>rest. ErrorHandler name a handler ctx start finish r =
           SpanStart name # SpanSetAttributes ''X-Request-ID'' rid # HandlerCall r # rest)
        \<and> (\<exists>rest. ErrorHandler0 a0 handler0 start finish r = HandlerCall r # rest))"
  by (simp add: buildQueryHeaders_absent bridgeReport_def bridged_def
      ErrorHandler_accepted ErrorHandler0_accepted)

theorem missing_bridge_header_noop_witness:
  "Header_Get (Headers plainRequest) ''X-NatsBridge-UrlQuery'' = []
   \<and> MsgID plainRequest = Inr ''abc''
   \<and> buildQueryHeaders plainRequest = Inr plainRequest
   \<and> bridgeReport [] plainRequest = []
   \<and> (\<exists>rest. ErrorHandler ''add'' exampleApp (\<lambda>c r h. ([ReqRespond ''3''], None)) () 0 0 plainRequest =
           SpanStart ''add'' # SpanSetAttributes ''X-Request-ID'' ''abc'' # HandlerCall plainRequest # rest)
   \<and> (\<exists>rest. ErrorHandler0 exampleApp0 (\<lambda>r h. ([ReqRespond ''3''], None)) 0 0 plainRequest =
           HandlerCall plainRequest # rest)"
proof -
  have 1: "Header_Get (Headers plainRequest) ''X-NatsBridge-UrlQuery'' = []"
    by (simp add: plainRequest_def Header_Get_def)
  note a = missing_bridge_header_noop [of plainRequest "[]" "''abc''" "''add''" exampleApp
      "\<lambda>c r h. ([ReqRespond ''3''], None)" "()" 0 0 exampleApp0 "\<lambda>r h. ([ReqRespond ''3''], None)"]
  from a 1 MsgID_plainRequest show ?thesis
    by blast
qed

section \<open>Errors of the handler\<close>

text \<open>
  C3. For an error that does not implement the \<open>ClientError\<close> interface,
  \<open>handleRequestError\<close> logs the error's text and writes the response with code 500 and
  the fixed body, the JSON object whose \<open>errors\<close> list holds the one text
  \<open>internal server error\<close>; the response does not depend on the error. A dispatch whose
  handler returns such an error ends, in both variants, with that log record, that
  response and the deferred calls; the tracing variant also records the error on its span,
  which is telemetry like the log and no part of the response.
\<close>

theorem internal_error_envelope:
  "handleRequestError logger (PlainError msg) =
     [LogError logger msg,
      ReqError ''500'' ''internal server error''
        (''{'' @ [dquote] @ ''errors'' @ [dquote] @ '': ['' @ [dquote]
           @ ''internal server error'' @ [dquote] @ '']}'')]
   \<and> (MsgID r = Inr rid \<and> snd (handlerResult name a handler ctx rid r) = Some (PlainError msg) \<longrightarrow>
        ErrorHandler name a handler ctx start finish r =
          bridgeReport (requestLogger (AppLogger a) rid r) r
            @ [SpanStart name, SpanSetAttributes ''X-Request-ID'' rid, HandlerCall (bridged r)]
            @ fst (handlerResult name a handler ctx rid r)
            @ [SpanSetStatus codes_Error msg, SpanRecordError (PlainError msg),
               LogError (requestLogger (AppLogger a) rid r) msg,
               ReqError ''500'' ''internal server error''
                 (''{'' @ [dquote] @ ''errors'' @ [dquote] @ '': ['' @ [dquote]
                    @ ''internal server error'' @ [dquote] @ '']}''),
               SpanEnd, durationRecord (requestLogger (AppLogger a) rid r) start finish])
   \<and> (MsgID r = Inr rid \<and> snd (handlerResult0 a0 handler0 rid r) = Some (PlainError msg) \<longrightarrow>
        ErrorHandler0 a0 handler0 start finish r =
          bridgeReport (requestLogger (AppLogger0 a0) rid r) r
            @ [HandlerCall (bridged r)]
            @ fst (handlerResult0 a0 handler0 rid r)
            @ [LogError (requestLogger (AppLogger0 a0) rid r) msg,
               ReqError ''500'' ''internal server error''
                 (''{'' @ [dquote] @ ''errors'' @ [dquote] @ '': ['' @ [dquote]
                    @ ''internal server error'' @ [dquote] @ '']}''),
               durationRecord (requestLogger (AppLogger0 a0) rid r) start finish])"
  by (simp add: handleRequestError_plain internalBody_def ErrorHandler_accepted
      ErrorHandler0_accepted)

theorem internal_error_envelope_witness:
  "MsgID plainRequest = Inr ''abc''
   \<and> snd (handlerResult ''add'' exampleApp (\<lambda>c r h. ([], Some (PlainError ''db: connection refused'')))
           () ''abc'' plainRequest) = Some (PlainError ''db: connection refused'')
   \<and> ErrorHandler ''add'' exampleApp (\<lambda>c r h. ([], Some (PlainError ''db: connection refused'')))
        () 0 0 plainRequest =
      [SpanStart ''add'', SpanSetAttributes ''X-Request-ID'' ''abc'', HandlerCall plainRequest,
       SpanSetStatus codes_Error ''db: connection refused'',
       SpanRecordError (PlainError ''db: connection refused''),
       LogError (requestLogger (AppLogger exampleApp) ''abc'' plainRequest) ''db: connection refused'',
       ReqError ''500'' ''internal server error''
         (''{'' @ [dquote] @ ''errors'' @ [dquote] @ '': ['' @ [dquote]
            @ ''internal server error'' @ [dquote] @ '']}''),
       SpanEnd, durationRecord (requestLogger (AppLogger exampleApp) ''abc'' plainRequest) 0 0]"
proof -
  have 1: "snd (handlerResult ''add'' exampleApp (\<lambda>c r h. ([], Some (PlainError ''db: connection refused'')))
           () ''abc'' plainRequest) = Some (PlainError ''db: connection refused'')"
    by (simp add: handlerResult_def)
  have 2: "fst (handlerResult ''add'' exampleApp (\<lambda>c r h. ([], Some (PlainError ''db: connection refused'')))
           () ''abc'' plainRequest) = []"
    by (simp add: handlerResult_def)
  note a = internal_error_envelope [of "[]" "''db: connection refused''" plainRequest "''abc''"
      "''add''" exampleApp "\<lambda>c r h. ([], Some (PlainError ''db: connection refused''))" "()" 0 0
      exampleApp0 "\<lambda>r h. ([], None)", THEN conjunct2, THEN conjunct1, THEN mp,
      OF conjI [OF MsgID_plainRequest 1]]
  from a show ?thesis
    by (simp add: MsgID_plainRequest 1 2 bridgeReport_plainRequest bridged_plainRequest)
qed

text \<open>
  C4, as stated, fails: \<open>Body\<close> does not escape or quote the details. For the value
  with status 404 and the one detail \<open>not found\<close>, the body written is the envelope with
  the bare words in it, not the envelope with the quoted text.
\<close>

theorem client_error_body_counterexample:
  "handleRequestError [] (SdClientError (ClientError 404 [''not found''] [])) =
     [ReqError ''404'' ''Not Found''
        (''{'' @ [dquote] @ ''errors'' @ [dquote] @ '': ['' @ ''not found'' @ '']}'')]
   \<and> handleRequestError [] (SdClientError (ClientError 404 [''not found''] [])) \<noteq>
     [ReqError ''404'' ''Not Found''
        (''{'' @ [dquote] @ ''errors'' @ [dquote] @ '': ['' @ [dquote] @ ''not found'' @ [dquote]
           @ '']}'')]"
  by (simp add: handleRequestError_client Sprintf_d_404 StatusText_404 ClientError_Body_def
      dquote_def)

text \<open>
  C4, amended. \<open>Body\<close> renders the details as they are stored, joined by commas, between
  the fixed opening and closing text of the envelope; it does not quote or escape them. For
  every \<open>ClientError\<close> the dispatcher logs the causes and writes the status with that body.
  So a \<open>ClientError\<close> with the status 404 whose one detail is the text \<open>not found\<close> in
  double quotes makes the dispatcher write the code 404 with the body whose \<open>errors\<close> list
  holds the quoted text, whatever its causes; the error that \<open>NewClientError\<close> builds from
  a cause with the text \<open>not found\<close> and the code 404 is such a value.
\<close>

theorem client_error_envelope:
  "handleRequestError logger (SdClientError c) =
     map (\<lambda>v. LogError logger (Error v)) (DetailedErrors c)
       @ [ReqError (Sprintf_d (Status c)) (StatusText (Status c))
            (''{'' @ [dquote] @ ''errors'' @ [dquote] @ '': ['' @ Join (Details c) '','' @ '']}'')]
   \<and> handleRequestError logger
         (SdClientError (ClientError 404 [[dquote] @ ''not found'' @ [dquote]] causes)) =
       map (\<lambda>v. LogError logger (Error v)) causes
         @ [ReqError ''404'' ''Not Found''
              (''{'' @ [dquote] @ ''errors'' @ [dquote] @ '': ['' @ [dquote] @ ''not found''
                 @ [dquote] @ '']}'')]
   \<and> handleRequestError logger (SdClientError (NewClientError (PlainError ''not found'') 404 [])) =
       [LogError logger ''not found'',
        ReqError ''404'' ''Not Found''
          (''{'' @ [dquote] @ ''errors'' @ [dquote] @ '': ['' @ [dquote] @ ''not found''
             @ [dquote] @ '']}'')]"
  by (simp add: handleRequestError_client NewClientError_plain Sprintf_d_404 StatusText_404
      ClientError_Body_def Quote_not_found)

section \<open>The parameters of the bridge\<close>

lemma ParseQuery_example:
  "ParseQuery ''a=1&a=2&b=3'' = ([(''a'', [''1'', ''2'']), (''b'', [''3''])], None)"
  by code_simp

lemma Quote_bad_escape: "Quote ''%zz'' = dquote # ''%zz'' @ [dquote]"
  by (simp add: Quote_def quoteByte_def dquote_def backslash_def)

lemma ParseQuery_bad:
  "ParseQuery ''a=%zz'' = ([], Some (PlainError (''invalid URL escape '' @ Quote ''%zz'')))"
  by code_simp

lemma Sprintf_d_0: "Sprintf_d 0 = ''0''"
  by code_simp

lemma Sprintf_d_5: "Sprintf_d 5 = ''5''"
  by code_simp


lemma distinct_Values_append:
  "distinct (map fst m) \<Longrightarrow> distinct (map fst (Values_append m k v))"
  by (simp add: Values_append_def distinct_update)

lemma parsePair_distinct:
  "distinct (map fst (fst st)) \<Longrightarrow> distinct (map fst (fst (parsePair st key)))"
  by (cases st) (auto simp: parsePair_def distinct_Values_append split: prod.splits sum.splits)

lemma parseQuery_distinct:
  "distinct (map fst (fst st)) \<Longrightarrow> distinct (map fst (fst (parseQuery st q)))"
proof (induction st q rule: parseQuery.induct)
  case (1 st)
  then show ?case by simp
next
  case (2 st c cs)
  then show ?case
    by (auto simp: parsePair_distinct split: prod.splits)
qed

lemma ParseQuery_distinct: "distinct (map fst (fst (ParseQuery q)))"
  by (simp add: ParseQuery_def parseQuery_distinct)

lemma QueryUnescape_plain: "QueryUnescape s = Inl e \<Longrightarrow> \<exists>msg. e = PlainError msg"
  by (auto simp: QueryUnescape_def split: option.splits)

lemma parsePair_plain:
  assumes "\<And>e. snd st = Some e \<Longrightarrow> \<exists>msg. e = PlainError msg"
    and "snd (parsePair st key) = Some e"
  shows "\<exists>msg. e = PlainError msg"
  using assms
  by (cases st)
     (auto simp: parsePair_def split: prod.splits sum.splits if_splits dest: QueryUnescape_plain)

lemma parseQuery_plain:
  "(\<And>e. snd st = Some e \<Longrightarrow> \<exists>msg. e = PlainError msg) \<Longrightarrow> snd (parseQuery st q) = Some e
     \<Longrightarrow> \<exists>msg. e = PlainError msg"
proof (induction st q rule: parseQuery.induct)
  case (1 st)
  then show ?case by simp
next
  case (2 st c cs)
  obtain key query where cut: "Cut (c # cs) (CHR ''&'') = (key, query)"
    by (cases "Cut (c # cs) (CHR ''&'')")
  from "2.prems"(2) cut have "snd (parseQuery (parsePair st key) query) = Some e"
    by simp
  moreover have "\<And>e'. snd (parsePair st key) = Some e' \<Longrightarrow> \<exists>msg. e' = PlainError msg"
    using "2.prems"(1) by (rule parsePair_plain)
  ultimately show ?case
    using "2.IH" [OF cut [symmetric] refl] by blast
qed

lemma buildQueryHeaders_plain:
  "buildQueryHeaders r = Inl e \<Longrightarrow> \<exists>msg. e = PlainError msg"
proof -
  assume a: "buildQueryHeaders r = Inl e"
  then have "snd (ParseQuery (Header_Get (Headers r) ''X-NatsBridge-UrlQuery'')) = Some e"
    by (auto simp: buildQueryHeaders_def Let_def split: prod.splits option.splits)
  then show ?thesis
    unfolding ParseQuery_def by (rule parseQuery_plain [rotated]) simp
qed

lemma fold_update_other:
  "x \<notin> (\<lambda>k. p @ k) ` fst ` set ps \<Longrightarrow>
     map_of (fold (\<lambda>(k, v) headers. AList.update (p @ k) v headers) ps h) x = map_of h x"
  by (induction ps arbitrary: h) (auto simp: update_conv' split: prod.splits)

lemma fold_update_copied:
  "distinct (map fst ps) \<Longrightarrow> map_of ps k = Some vs \<Longrightarrow>
     map_of (fold (\<lambda>(k, v) headers. AList.update (p @ k) v headers) ps h) (p @ k) = Some vs"
proof (induction ps arbitrary: h)
  case Nil
  then show ?case by simp
next
  case (Cons kv ps)
  obtain k' v' where kv: "kv = (k', v')"
    by (cases kv)
  show ?case
  proof (cases "k' = k")
    case True
    with Cons.prems kv have "vs = v'" and "k \<notin> fst ` set ps"
      by auto
    then have "p @ k \<notin> (\<lambda>k. p @ k) ` fst ` set ps"
      by auto
    then show ?thesis
      using kv True \<open>vs = v'\<close> by (simp add: fold_update_other update_conv')
  next
    case False
    with Cons.prems kv have "distinct (map fst ps)" and "map_of ps k = Some vs"
      by auto
    then show ?thesis
      using kv by (simp add: Cons.IH)
  qed
qed

lemma buildQueryHeaders_ok:
  "buildQueryHeaders r = Inr r' \<Longrightarrow>
     snd (ParseQuery (Header_Get (Headers r) ''X-NatsBridge-UrlQuery'')) = None
     \<and> r' = r\<lparr>Headers :=
               fold (\<lambda>(k, v) headers. AList.update (''X-Sencillo-'' @ k) v headers)
                 (fst (ParseQuery (Header_Get (Headers r) ''X-NatsBridge-UrlQuery'')))
                 (Headers r)\<rparr>"
  by (auto simp: buildQueryHeaders_def Let_def split: prod.splits option.splits)

lemma buildQueryHeaders_example:
  "Header_Get (Headers r) ''X-NatsBridge-UrlQuery'' = ''a=1&a=2&b=3'' \<Longrightarrow>
     buildQueryHeaders r =
       Inr (r\<lparr>Headers := AList.update ''X-Sencillo-b'' [''3'']
                             (AList.update ''X-Sencillo-a'' [''1'', ''2''] (Headers r))\<rparr>)"
  by (simp add: buildQueryHeaders_def ParseQuery_example)

lemma buildQueryHeaders_bad: 
  "buildQueryHeaders badQueryRequest = Inl (PlainError (''invalid URL escape '' @ Quote ''%zz''))"
  by (simp add: buildQueryHeaders_def badQueryRequest_def Header_Get_def ParseQuery_bad)

lemma MsgID_badQueryRequest: "MsgID badQueryRequest = Inr ''abc''"
  by (simp add: MsgID_def badQueryRequest_def Header_Get_def)

lemma MsgID_queryRequest: "MsgID queryRequest = Inr ''abc''"
  by (simp add: MsgID_def queryRequest_def Header_Get_def)

text \<open>
  C6. A request that carries the query string \<open>a=1&a=2&b=3\<close> under
  \<open>X-NatsBridge-UrlQuery\<close> is bridged without error, and afterwards \<open>GetQueryHeaders\<close>
  returns the values 1, 2 in that order for \<open>a\<close> and the value 3 for \<open>b\<close>. In general,
  after a successful \<open>buildQueryHeaders\<close> every parameter of the parsed query is stored
  under its name prefixed with \<open>X-Sencillo-\<close>, with the list of values the parser built
  for it; \<open>GetQueryHeaders\<close> returns that list; keys that are not such a prefixed name
  keep what they held; the subject and the payload are untouched.
\<close>

theorem bridge_query_headers:
  "(Header_Get (Headers r) ''X-NatsBridge-UrlQuery'' = ''a=1&a=2&b=3'' \<longrightarrow>
      (\<exists>r'. buildQueryHeaders r = Inr r'
         \<and> GetQueryHeaders (Headers r') ''a'' = [''1'', ''2'']
         \<and> GetQueryHeaders (Headers r') ''b'' = [''3'']))
   \<and> (buildQueryHeaders r = Inr r' \<longrightarrow>
        (\<forall>k vs. map_of (fst (ParseQuery (Header_Get (Headers r) ''X-NatsBridge-UrlQuery''))) k
                  = Some vs \<longrightarrow>
           GetQueryHeaders (Headers r') k = vs
           \<and> map_of (Headers r') (''X-Sencillo-'' @ k) = Some vs)
        \<and> (\<forall>x. x \<notin> (\<lambda>k. ''X-Sencillo-'' @ k)
                      ` fst ` set (fst (ParseQuery (Header_Get (Headers r) ''X-NatsBridge-UrlQuery'')))
               \<longrightarrow> map_of (Headers r') x = map_of (Headers r) x)
        \<and> Subject r' = Subject r \<and> Data r' = Data r)"
proof -
  have example: "\<exists>r'. buildQueryHeaders r = Inr r'
         \<and> GetQueryHeaders (Headers r') ''a'' = [''1'', ''2'']
         \<and> GetQueryHeaders (Headers r') ''b'' = [''3'']"
    if "Header_Get (Headers r) ''X-NatsBridge-UrlQuery'' = ''a=1&a=2&b=3''"
    by (simp add: buildQueryHeaders_example [OF that] GetQueryHeaders_def Header_Values_def
        update_conv')
  have general: "GetQueryHeaders (Headers r') k = vs
      \<and> map_of (Headers r') (''X-Sencillo-'' @ k) = Some vs"
    if "buildQueryHeaders r = Inr r'"
      and "map_of (fst (ParseQuery (Header_Get (Headers r) ''X-NatsBridge-UrlQuery''))) k = Some vs"
    for k vs
    using buildQueryHeaders_ok [OF that(1)] fold_update_copied [OF ParseQuery_distinct that(2), where p = "''X-Sencillo-''"
        and h = "Headers r"]
    by (simp add: GetQueryHeaders_def Header_Values_def)
  have other: "map_of (Headers r') x = map_of (Headers r) x"
    if "buildQueryHeaders r = Inr r'"
      and "x \<notin> (\<lambda>k. ''X-Sencillo-'' @ k)
              ` fst ` set (fst (ParseQuery (Header_Get (Headers r) ''X-NatsBridge-UrlQuery'')))"
    for x
    using buildQueryHeaders_ok [OF that(1)] fold_update_other [OF that(2), where h = "Headers r"]
    by simp
  have rest: "Subject r' = Subject r \<and> Data r' = Data r" if "buildQueryHeaders r = Inr r'"
    using buildQueryHeaders_ok [OF that] by (cases r) simp
  from example general other rest show ?thesis
    by blast
qed

section \<open>A query string that does not parse\<close>

theorem bridge_query_headers_witness:
  "Header_Get (Headers queryRequest) ''X-NatsBridge-UrlQuery'' = ''a=1&a=2&b=3''
   \<and> buildQueryHeaders queryRequest =
       Inr (queryRequest\<lparr>Headers := AList.update ''X-Sencillo-b'' [''3'']
              (AList.update ''X-Sencillo-a'' [''1'', ''2''] (Headers queryRequest))\<rparr>)
   \<and> map_of (fst (ParseQuery (Header_Get (Headers queryRequest) ''X-NatsBridge-UrlQuery''))) ''a''
       = Some [''1'', ''2'']
   \<and> GetQueryHeaders
        (Headers (queryRequest\<lparr>Headers := AList.update ''X-Sencillo-b'' [''3'']
              (AList.update ''X-Sencillo-a'' [''1'', ''2''] (Headers queryRequest))\<rparr>)) ''a''
       = [''1'', ''2'']
   \<and> (\<exists>r'. buildQueryHeaders queryRequest = Inr r'
         \<and> GetQueryHeaders (Headers r') ''a'' = [''1'', ''2'']
         \<and> GetQueryHeaders (Headers r') ''b'' = [''3''])"
proof -
  have 1: "Header_Get (Headers queryRequest) ''X-NatsBridge-UrlQuery'' = ''a=1&a=2&b=3''"
    by (simp add: queryRequest_def Header_Get_def)
  note 2 = buildQueryHeaders_example [OF 1]
  have 3: "map_of (fst (ParseQuery (Header_Get (Headers queryRequest) ''X-NatsBridge-UrlQuery'')))
      ''a'' = Some [''1'', ''2'']"
    by (simp add: 1 ParseQuery_example)
  note t = bridge_query_headers [of queryRequest
      "queryRequest\<lparr>Headers := AList.update ''X-Sencillo-b'' [''3'']
              (AList.update ''X-Sencillo-a'' [''1'', ''2''] (Headers queryRequest))\<rparr>"]
  from t 1 2 3 show ?thesis
    by blast
qed

lemma handleRequestError_responds:
  "\<exists>c d b. ReqError c d b \<in> set (handleRequestError l e)"
proof (cases "asClientError e")
  case None
  then have "ReqError ''500'' ''internal server error'' internalBody \<in> set (handleRequestError l e)"
    by (simp add: handleRequestError_def)
  then show ?thesis
    by blast
next
  case (Some t)
  obtain code body logged where "t = (code, body, logged)"
    by (cases t)
  with Some have "ReqError (Sprintf_d code) (StatusText code) body \<in> set (handleRequestError l e)"
    by (simp add: handleRequestError_def)
  then show ?thesis
    by blast
qed

text \<open>
  C5. When the correlation ID is there and \<open>buildQueryHeaders\<close> fails, the dispatch
  reports the failure (a log record and an error response) and goes on as if the bridge had
  done nothing. The tracing variant starts the span, sets its attribute and calls the
  handler on the request as it came, with the context of the new span and the handler
  context of the request; what the handler does and returns is in the trace, followed by
  the status of the span, the response for the handler's error if it returned one, and the
  deferred calls. The other variant does the same without the span.
\<close>

theorem bridge_failure_continues:
  "MsgID r = Inr rid \<and> buildQueryHeaders r = Inl e \<longrightarrow>
     ErrorHandler name a handler ctx start finish r =
       [LogError (requestLogger (AppLogger a) rid r) (Error e),
        ReqError ''500'' ''internal server error''
          (''{'' @ [dquote] @ ''errors'' @ [dquote] @ '': ['' @ [dquote]
             @ ''internal server error'' @ [dquote] @ '']}''),
        SpanStart name, SpanSetAttributes ''X-Request-ID'' rid, HandlerCall r]
       @ fst (handler
                (AppTracer a
                   (AppPropagator a ctx (microHeaderCarrier_Get (Headers r))
                      (microHeaderCarrier_Keys (Headers r)))
                   name)
                r
                \<lparr>Logger = requestLogger (AppLogger a) rid r, Conn = AppConn a,
                 Tracer = AppTracer a, Propagator = AppPropagator a\<rparr>)
       @ (case snd (handler
                (AppTracer a
                   (AppPropagator a ctx (microHeaderCarrier_Get (Headers r))
                      (microHeaderCarrier_Keys (Headers r)))
                   name)
                r
                \<lparr>Logger = requestLogger (AppLogger a) rid r, Conn = AppConn a,
                 Tracer = AppTracer a, Propagator = AppPropagator a\<rparr>) of
            None \<Rightarrow> [SpanSetStatus codes_Ok ''success'']
          | Some e' \<Rightarrow>
              [SpanSetStatus codes_Error (Error e'), SpanRecordError e']
                @ handleRequestError (requestLogger (AppLogger a) rid r) e')
       @ [SpanEnd, durationRecord (requestLogger (AppLogger a) rid r) start finish]
     \<and> ErrorHandler0 a0 handler0 start finish r =
       [LogError (requestLogger (AppLogger0 a0) rid r) (Error e),
        ReqError ''500'' ''internal server error''
          (''{'' @ [dquote] @ ''errors'' @ [dquote] @ '': ['' @ [dquote]
             @ ''internal server error'' @ [dquote] @ '']}''),
        HandlerCall r]
       @ fst (handler0 r
                \<lparr>Logger0 = requestLogger (AppLogger0 a0) rid r, Conn0 = AppConn0 a0\<rparr>)
       @ (case snd (handler0 r
                \<lparr>Logger0 = requestLogger (AppLogger0 a0) rid r, Conn0 = AppConn0 a0\<rparr>) of
            None \<Rightarrow> []
          | Some e' \<Rightarrow> handleRequestError (requestLogger (AppLogger0 a0) rid r) e')
       @ [durationRecord (requestLogger (AppLogger0 a0) rid r) start finish]"
proof (intro impI, elim conjE)
  assume rid: "MsgID r = Inr rid" and bad: "buildQueryHeaders r = Inl e"
  from buildQueryHeaders_plain [OF bad] obtain msg where e: "e = PlainError msg"
    by blast
  have same: "bridged r = r"
    by (simp add: bridged_def bad)
  have report: "bridgeReport l r =
      [LogError l (Error e),
       ReqError ''500'' ''internal server error''
         (''{'' @ [dquote] @ ''errors'' @ [dquote] @ '': ['' @ [dquote]
            @ ''internal server error'' @ [dquote] @ '']}'')]" for l
    by (simp add: bridgeReport_def bad e handleRequestError_plain internalBody_def)
  have traced: "ErrorHandler name a handler ctx start finish r =
       [LogError (requestLogger (AppLogger a) rid r) (Error e),
        ReqError ''500'' ''internal server error''
          (''{'' @ [dquote] @ ''errors'' @ [dquote] @ '': ['' @ [dquote]
             @ ''internal server error'' @ [dquote] @ '']}''),
        SpanStart name, SpanSetAttributes ''X-Request-ID'' rid, HandlerCall r]
       @ fst (handler
                (AppTracer a
                   (AppPropagator a ctx (microHeaderCarrier_Get (Headers r))
                      (microHeaderCarrier_Keys (Headers r)))
                   name)
                r
                \<lparr>Logger = requestLogger (AppLogger a) rid r, Conn = AppConn a,
                 Tracer = AppTracer a, Propagator = AppPropagator a\<rparr>)
       @ (case snd (handler
                (AppTracer a
                   (AppPropagator a ctx (microHeaderCarrier_Get (Headers r))
                      (microHeaderCarrier_Keys (Headers r)))
                   name)
                r
                \<lparr>Logger = requestLogger (AppLogger a) rid r, Conn = AppConn a,
                 Tracer = AppTracer a, Propagator = AppPropagator a\<rparr>) of
            None \<Rightarrow> [SpanSetStatus codes_Ok ''success'']
          | Some e' \<Rightarrow>
              [SpanSetStatus codes_Error (Error e'), SpanRecordError e']
                @ handleRequestError (requestLogger (AppLogger a) rid r) e')
       @ [SpanEnd, durationRecord (requestLogger (AppLogger a) rid r) start finish]"
    unfolding ErrorHandler_accepted [OF rid] handlerResult_def same report
    by (simp only: append_Cons append_Nil)
  have plain: "ErrorHandler0 a0 handler0 start finish r =
       [LogError (requestLogger (AppLogger0 a0) rid r) (Error e),
        ReqError ''500'' ''internal server error''
          (''{'' @ [dquote] @ ''errors'' @ [dquote] @ '': ['' @ [dquote]
             @ ''internal server error'' @ [dquote] @ '']}''),
        HandlerCall r]
       @ fst (handler0 r
                \<lparr>Logger0 = requestLogger (AppLogger0 a0) rid r, Conn0 = AppConn0 a0\<rparr>)
       @ (case snd (handler0 r
                \<lparr>Logger0 = requestLogger (AppLogger0 a0) rid r, Conn0 = AppConn0 a0\<rparr>) of
            None \<Rightarrow> []
          | Some e' \<Rightarrow> handleRequestError (requestLogger (AppLogger0 a0) rid r) e')
       @ [durationRecord (requestLogger (AppLogger0 a0) rid r) start finish]"
    unfolding ErrorHandler0_accepted [OF rid] handlerResult0_def same report
    by (simp only: append_Cons append_Nil)
  from traced plain show "ErrorHandler name a handler ctx start finish r =
       [LogError (requestLogger (AppLogger a) rid r) (Error e),
        ReqError ''500'' ''internal server error''
          (''{'' @ [dquote] @ ''errors'' @ [dquote] @ '': ['' @ [dquote]
             @ ''internal server error'' @ [dquote] @ '']}''),
        SpanStart name, SpanSetAttributes ''X-Request-ID'' rid, HandlerCall r]
       @ fst (handler
                (AppTracer a
                   (AppPropagator a ctx (microHeaderCarrier_Get (Headers r))
                      (microHeaderCarrier_Keys (Headers r)))
                   name)
                r
                \<lparr>Logger = requestLogger (AppLogger a) rid r, Conn = AppConn a,
                 Tracer = AppTracer a, Propagator = AppPropagator a\<rparr>)
       @ (case snd (handler
                (AppTracer a
                   (AppPropagator a ctx (microHeaderCarrier_Get (Headers r))
                      (microHeaderCarrier_Keys (Headers r)))
                   name)
                r
                \<lparr>Logger = requestLogger (AppLogger a) rid r, Conn = AppConn a,
                 Tracer = AppTracer a, Propagator = AppPropagator a\<rparr>) of
            None \<Rightarrow> [SpanSetStatus codes_Ok ''success'']
          | Some e' \<Rightarrow>
              [SpanSetStatus codes_Error (Error e'), SpanRecordError e']
                @ handleRequestError (requestLogger (AppLogger a) rid r) e')
       @ [SpanEnd, durationRecord (requestLogger (AppLogger a) rid r) start finish]
     \<and> ErrorHandler0 a0 handler0 start finish r =
       [LogError (requestLogger (AppLogger0 a0) rid r) (Error e),
        ReqError ''500'' ''internal server error''
          (''{'' @ [dquote] @ ''errors'' @ [dquote] @ '': ['' @ [dquote]
             @ ''internal server error'' @ [dquote] @ '']}''),
        HandlerCall r]
       @ fst (handler0 r
                \<lparr>Logger0 = requestLogger (AppLogger0 a0) rid r, Conn0 = AppConn0 a0\<rparr>)
       @ (case snd (handler0 r
                \<lparr>Logger0 = requestLogger (AppLogger0 a0) rid r, Conn0 = AppConn0 a0\<rparr>) of
            None \<Rightarrow> []
          | Some e' \<Rightarrow> handleRequestError (requestLogger (AppLogger0 a0) rid r) e')
       @ [durationRecord (requestLogger (AppLogger0 a0) rid r) start finish]"
    by (rule conjI)
qed

theorem bridge_failure_continues_witness:
  "MsgID badQueryRequest = Inr ''abc''
   \<and> buildQueryHeaders badQueryRequest = Inl (PlainError (''invalid URL escape '' @ Quote ''%zz''))
   \<and> ErrorHandler ''add'' exampleApp
        (\<lambda>c r h. ([ReqRespond (Data r)], Some (PlainError ''late''))) () 0 0 badQueryRequest =
       [LogError (requestLogger (AppLogger exampleApp) ''abc'' badQueryRequest)
          (''invalid URL escape '' @ Quote ''%zz''),
        ReqError ''500'' ''internal server error''
          (''{'' @ [dquote] @ ''errors'' @ [dquote] @ '': ['' @ [dquote]
             @ ''internal server error'' @ [dquote] @ '']}''),
        SpanStart ''add'', SpanSetAttributes ''X-Request-ID'' ''abc'',
        HandlerCall badQueryRequest,
        ReqRespond (Data badQueryRequest),
        SpanSetStatus codes_Error ''late'', SpanRecordError (PlainError ''late''),
        LogError (requestLogger (AppLogger exampleApp) ''abc'' badQueryRequest) ''late'',
        ReqError ''500'' ''internal server error'' internalBody,
        SpanEnd,
        durationRecord (requestLogger (AppLogger exampleApp) ''abc'' badQueryRequest) 0 0]
   \<and> ErrorHandler0 exampleApp0
        (\<lambda>r h. ([ReqRespond (Data r)], None)) 0 0 badQueryRequest =
       [LogError (requestLogger (AppLogger0 exampleApp0) ''abc'' badQueryRequest)
          (''invalid URL escape '' @ Quote ''%zz''),
        ReqError ''500'' ''internal server error''
          (''{'' @ [dquote] @ ''errors'' @ [dquote] @ '': ['' @ [dquote]
             @ ''internal server error'' @ [dquote] @ '']}''),
        HandlerCall badQueryRequest,
        ReqRespond (Data badQueryRequest),
        durationRecord (requestLogger (AppLogger0 exampleApp0) ''abc'' badQueryRequest) 0 0]"
proof -
  note t = bridge_failure_continues [of badQueryRequest "''abc''"
      "PlainError (''invalid URL escape '' @ Quote ''%zz'')" "''add''" exampleApp
      "\<lambda>c r h. ([ReqRespond (Data r)], Some (PlainError ''late''))" "()" 0 0 exampleApp0
      "\<lambda>r h. ([ReqRespond (Data r)], None)",
      THEN mp, OF conjI [OF MsgID_badQueryRequest buildQueryHeaders_bad]]
  from t show ?thesis
    by (simp add: MsgID_badQueryRequest buildQueryHeaders_bad handleRequestError_plain)
qed

text \<open>
  C2. A dispatch of the request whose bridge header holds \<open>a=%zz\<close>: the failure of the
  bridge is logged and answered with the code 500 and the fixed internal-error body (the
  parse error is no \<open>ClientError\<close>), then the handler runs and answers as well.
\<close>

theorem bridge_failure_is_internal_error:
  "ErrorHandler ''add'' exampleApp (\<lambda>c r h. ([ReqRespond ''3''], None)) () 0 0 badQueryRequest =
     [LogError (requestLogger (AppLogger exampleApp) ''abc'' badQueryRequest)
        (''invalid URL escape '' @ [dquote] @ ''%zz'' @ [dquote]),
      ReqError ''500'' ''internal server error''
        (''{'' @ [dquote] @ ''errors'' @ [dquote] @ '': ['' @ [dquote]
           @ ''internal server error'' @ [dquote] @ '']}''),
      SpanStart ''add'', SpanSetAttributes ''X-Request-ID'' ''abc'', HandlerCall badQueryRequest,
      ReqRespond ''3'', SpanSetStatus codes_Ok ''success'', SpanEnd,
      durationRecord (requestLogger (AppLogger exampleApp) ''abc'' badQueryRequest) 0 0]"
  by (simp add: ErrorHandler_accepted [OF MsgID_badQueryRequest] bridgeReport_def bridged_def
      buildQueryHeaders_bad handlerResult_def handleRequestError_plain internalBody_def
      Quote_bad_escape)

lemma MsgID_Inl:
  "MsgID r = Inl err \<Longrightarrow> err = PlainError ''required request ID not found''"
  by (auto simp: MsgID_def Let_def split: if_splits)

lemma Milliseconds_nonneg: "0 \<le> d \<Longrightarrow> Milliseconds d = d div 1000000"
  by (cases "d = 0") (simp_all add: Milliseconds_def)

text \<open>
  C7, as stated, fails: for a request without correlation ID the dispatch returns before
  the deferred duration record is registered, and logs no duration.
\<close>

theorem duration_not_logged_counterexample:
  "\<not> (\<exists>l m. LogInfo l m
        \<in> set (ErrorHandler ''add'' exampleApp (\<lambda>c r h. ([ReqRespond ''3''], None)) () 0 5000000
                 noHeaders))"
proof -
  have "Header_Get (Headers noHeaders) ''X-Request-ID'' = []"
    by (simp add: noHeaders_def Header_Get_def)
  from MsgID_missing [OF this] show ?thesis
    by (simp add: ErrorHandler_rejected reject_events)
qed

section \<open>The duration record\<close>

lemma durationRecord_elapsed:
  assumes "start \<le> finish"
  shows "durationRecord l start finish =
     LogInfo l (''duration '' @ Sprintf_d ((finish - start) div 1000000) @ ''ms'')"
  unfolding durationRecord_def Milliseconds_nonneg [of "finish - start", simplified, OF assms] ..

text \<open>
  C7, amended. A dispatch with a correlation ID ends, on every path, with the duration
  record on the request-scoped logger: the text \<open>duration\<close>, the milliseconds between
  the two readings of the clock, \<open>ms\<close>; the number is not negative when the clock did
  not go back. On each error path (no correlation ID, a bridge failure, an error of the
  handler) the dispatch calls the error response of the request.
\<close>

theorem dispatch_ends_with_duration:
  "(MsgID r = Inr rid \<and> start \<le> finish \<longrightarrow>
      (\<exists>before. ErrorHandler name a handler ctx start finish r =
         before @ [LogInfo (requestLogger (AppLogger a) rid r)
                     (''duration '' @ Sprintf_d ((finish - start) div 1000000) @ ''ms'')])
      \<and> 0 \<le> (finish - start) div 1000000)
   \<and> (MsgID r = Inl err \<longrightarrow>
        (\<exists>c d b. ReqError c d b \<in> set (ErrorHandler name a handler ctx start finish r)))
   \<and> (MsgID r = Inr rid \<and> buildQueryHeaders r = Inl err \<longrightarrow>
        (\<exists>c d b. ReqError c d b \<in> set (ErrorHandler name a handler ctx start finish r)))
   \<and> (MsgID r = Inr rid \<and> snd (handlerResult name a handler ctx rid r) = Some err \<longrightarrow>
        (\<exists>c d b. ReqError c d b \<in> set (ErrorHandler name a handler ctx start finish r)))"
proof (intro conjI impI)
  assume "MsgID r = Inr rid \<and> start \<le> finish"
  then have rid: "MsgID r = Inr rid" and le: "start \<le> finish"
    by simp_all
  have "[SpanEnd, durationRecord (requestLogger (AppLogger a) rid r) start finish] =
      [SpanEnd] @ [LogInfo (requestLogger (AppLogger a) rid r)
                     (''duration '' @ Sprintf_d ((finish - start) div 1000000) @ ''ms'')]"
    unfolding durationRecord_elapsed [OF le] by (simp only: append_Cons append_Nil)
  then have "ErrorHandler name a handler ctx start finish r =
      (bridgeReport (requestLogger (AppLogger a) rid r) r
       @ [SpanStart name, SpanSetAttributes ''X-Request-ID'' rid, HandlerCall (bridged r)]
       @ fst (handlerResult name a handler ctx rid r)
       @ (case snd (handlerResult name a handler ctx rid r) of
            None \<Rightarrow> [SpanSetStatus codes_Ok ''success'']
          | Some e \<Rightarrow>
              [SpanSetStatus codes_Error (Error e), SpanRecordError e]
                @ handleRequestError (requestLogger (AppLogger a) rid r) e)
       @ [SpanEnd])
      @ [LogInfo (requestLogger (AppLogger a) rid r)
           (''duration '' @ Sprintf_d ((finish - start) div 1000000) @ ''ms'')]"
    unfolding ErrorHandler_accepted [OF rid] by (simp only: append_assoc)
  then show "\<exists>before. ErrorHandler name a handler ctx start finish r =
         before @ [LogInfo (requestLogger (AppLogger a) rid r)
                     (''duration '' @ Sprintf_d ((finish - start) div 1000000) @ ''ms'')]"
    by blast
next
  assume "MsgID r = Inr rid \<and> start \<le> finish"
  then have "0 \<le> finish - start"
    by simp
  then show "0 \<le> (finish - start) div 1000000"
    by (simp only: pos_imp_zdiv_nonneg_iff [of 1000000, simplified])
next
  assume rejected: "MsgID r = Inl err"
  show "\<exists>c d b. ReqError c d b \<in> set (ErrorHandler name a handler ctx start finish r)"
    unfolding ErrorHandler_rejected [OF rejected] by (rule handleRequestError_responds)
next
  assume "MsgID r = Inr rid \<and> buildQueryHeaders r = Inl err"
  then have rid: "MsgID r = Inr rid" and bad: "buildQueryHeaders r = Inl err"
    by simp_all
  obtain c d b where "ReqError c d b \<in> set (handleRequestError (requestLogger (AppLogger a) rid r) err)"
    using handleRequestError_responds by blast
  then have "ReqError c d b \<in> set (bridgeReport (requestLogger (AppLogger a) rid r) r)"
    by (simp add: bridgeReport_def bad)
  then have "ReqError c d b \<in> set (ErrorHandler name a handler ctx start finish r)"
    unfolding ErrorHandler_accepted [OF rid] set_append by (rule UnI1)
  then show "\<exists>c d b. ReqError c d b \<in> set (ErrorHandler name a handler ctx start finish r)"
    by blast
next
  assume "MsgID r = Inr rid \<and> snd (handlerResult name a handler ctx rid r) = Some err"
  then have rid: "MsgID r = Inr rid"
    and failed: "snd (handlerResult name a handler ctx rid r) = Some err"
    by simp_all
  obtain c d b where "ReqError c d b \<in> set (handleRequestError (requestLogger (AppLogger a) rid r) err)"
    using handleRequestError_responds by blast
  then have "ReqError c d b \<in> set (ErrorHandler name a handler ctx start finish r)"
    unfolding ErrorHandler_accepted [OF rid] failed set_append option.case by blast
  then show "\<exists>c d b. ReqError c d b \<in> set (ErrorHandler name a handler ctx start finish r)"
    by blast
qed

theorem dispatch_ends_with_duration_witness:
  "MsgID plainRequest = Inr ''abc'' \<and> (0::int) \<le> 5000000
   \<and> snd (handlerResult ''add'' exampleApp (\<lambda>c r h. ([], Some (PlainError ''db: connection refused'')))
           () ''abc'' plainRequest) = Some (PlainError ''db: connection refused'')
   \<and> (\<exists>before. ErrorHandler ''add'' exampleApp
         (\<lambda>c r h. ([], Some (PlainError ''db: connection refused''))) () 0 5000000 plainRequest =
         before @ [LogInfo (requestLogger (AppLogger exampleApp) ''abc'' plainRequest) ''duration 5ms''])
   \<and> (\<exists>c d b. ReqError c d b \<in> set (ErrorHandler ''add'' exampleApp
         (\<lambda>c r h. ([], Some (PlainError ''db: connection refused''))) () 0 5000000 plainRequest))"
proof -
  have 1: "snd (handlerResult ''add'' exampleApp (\<lambda>c r h. ([], Some (PlainError ''db: connection refused'')))
           () ''abc'' plainRequest) = Some (PlainError ''db: connection refused'')"
    by (simp add: handlerResult_def)
  have 2: "(0::int) \<le> 5000000"
    by simp
  have 3: "''duration '' @ Sprintf_d ((5000000 - 0) div 1000000) @ ''ms'' = ''duration 5ms''"
    by (simp add: Sprintf_d_5)
  note t = dispatch_ends_with_duration [of plainRequest "''abc''" 0 5000000 "''add''" exampleApp
      "\<lambda>c r h. ([], Some (PlainError ''db: connection refused''))" "()"
      "PlainError ''db: connection refused''"]
  from t [THEN conjunct1, THEN mp, OF conjI [OF MsgID_plainRequest 2], THEN conjunct1]
  have 4: "\<exists>before. ErrorHandler ''add'' exampleApp
         (\<lambda>c r h. ([], Some (PlainError ''db: connection refused''))) () 0 5000000 plainRequest =
         before @ [LogInfo (requestLogger (AppLogger exampleApp) ''abc'' plainRequest) ''duration 5ms'']"
    unfolding 3 .
  note 5 = t [THEN conjunct2, THEN conjunct2, THEN conjunct2, THEN mp,
      OF conjI [OF MsgID_plainRequest 1]]
  show ?thesis
    by (intro conjI) (rule MsgID_plainRequest 1 2 4 5)+
qed

end
